theory Spec2Isabelle
  imports Complex_Main "HOL-Library.Multiset" "HOL-Library.Sublist"
begin

section \<open>Dates: JavaScript \<open>Date\<close> and the dayjs wrapper\<close>

text \<open>
  A JavaScript \<open>Date\<close> is its time value, the milliseconds since the epoch. A
  \<open>dayjs.Dayjs\<close> object wraps a \<open>Date\<close> together with a locale tag; \<open>dayjs(date)\<close>
  wraps with the default locale and \<open>.toDate()\<close> gives the wrapped date back.
  Calendar days are read in a zone with a fixed offset of zero (no daylight saving), and
  only valid dates are modelled.
\<close>

datatype Date = Date (getTime: int)

datatype Dayjs = Dayjs (toDate: Date) (dayjs_locale: string)

definition dayjs :: "Date \<Rightarrow> Dayjs" where
  "dayjs date = Dayjs date ''en''"

definition msPerDay :: int where
  "msPerDay = 86400000"

definition valueOf :: "Dayjs \<Rightarrow> int" where
  "valueOf dj = getTime (toDate dj)"

text \<open>\<open>dj.add(n, 'day')\<close>: the same time of day, \<open>n\<close> calendar days later; the locale is kept.\<close>

definition add_days :: "Dayjs \<Rightarrow> int \<Rightarrow> Dayjs" where
  "add_days dj n = Dayjs (Date (valueOf dj + n * msPerDay)) (dayjs_locale dj)"

text \<open>\<open>startOf('day')\<close> and \<open>endOf('day')\<close> as time values.\<close>

definition startOfDay :: "int \<Rightarrow> int" where
  "startOfDay t = t - t mod msPerDay"

definition endOfDay :: "int \<Rightarrow> int" where
  "endOfDay t = startOfDay t + msPerDay - 1"

text \<open>
  \<open>this.isBefore(that, 'day')\<close> is \<open>this.endOf('day') < that\<close>, and
  \<open>this.isAfter(that, 'day')\<close> is \<open>that < this.startOf('day')\<close>.
\<close>

definition isBefore_day :: "Dayjs \<Rightarrow> Date \<Rightarrow> bool" where
  "isBefore_day this that = (endOfDay (valueOf this) < getTime that)"

definition isAfter_day :: "Dayjs \<Rightarrow> Date \<Rightarrow> bool" where
  "isAfter_day this that = (getTime that < startOfDay (valueOf this))"

text \<open>
  \<open>this.isBetween(a, b, 'day', '[]')\<close> of the dayjs plugin: with both ends inclusive
  it accepts the two end points in either order.
\<close>

definition isBetween_day_incl :: "Dayjs \<Rightarrow> Date \<Rightarrow> Date \<Rightarrow> bool" where
  "isBetween_day_incl this a b =
     ((\<not> isBefore_day this a \<and> \<not> isAfter_day this b) \<or>
      (\<not> isAfter_day this a \<and> \<not> isBefore_day this b))"

text \<open>The calendar day of a time value, counted from the epoch.\<close>

definition epochDay :: "int \<Rightarrow> int" where
  "epochDay t = t div msPerDay"


section \<open>Events, helpers imported from \<open>../utils\<close>, props and state\<close>

record ICalendarEventBase =
  start :: Date
  end' :: Date
  title :: string

text \<open>
  The helpers that \<open>CalendarContainer.tsx\<close> imports from \<open>../utils\<close>. Their bodies are
  not part of the sources at hand, so the component is modelled over any implementation
  of them. A mode is the string the component receives; week days are numbers.
\<close>

record utils =
  getDatesInMonth :: "Dayjs \<Rightarrow> string \<Rightarrow> Dayjs list"
  getDatesInWeek :: "Dayjs \<Rightarrow> nat \<Rightarrow> string \<Rightarrow> Dayjs list"
  getDatesInNextThreeDays :: "Dayjs \<Rightarrow> string \<Rightarrow> Dayjs list"
  getDatesInNextOneDay :: "Dayjs \<Rightarrow> string \<Rightarrow> Dayjs list"
  getDatesInNextCustomDays :: "Dayjs \<Rightarrow> nat \<Rightarrow> nat \<Rightarrow> string \<Rightarrow> Dayjs list"
  isAllDayEvent :: "Date \<Rightarrow> Date \<Rightarrow> bool"
  modeToNum :: "string \<Rightarrow> Dayjs \<Rightarrow> int"

datatype HorizontalDirection = LEFT | RIGHT

record Theme =
  isRTL :: bool

text \<open>
  The props of \<open>_CalendarContainer\<close> that the modelled code reads. A callback prop is
  recorded as present or absent; its invocations are recorded as values of \<open>Call\<close>.
\<close>

record CalendarContainerProps =
  events :: "ICalendarEventBase list"
  mode :: string
  locale' :: string
  swipeEnabled :: bool
  weekStartsOn :: nat
  weekEndsOn :: nat
  showAllDayEventCell :: bool
  animatePan :: bool
  fadeInDuration :: real
  onChangeDate :: bool
  onPressDateHeader :: bool

datatype Call =
  Call_onChangeDate Date Date
  | Call_onPressDateHeader Date

datatype error =
  UnsupportedMode string
  | TypeError

text \<open>
  \<open>Animated.timing(value, {toValue, duration}).start(callback)\<close>: the animated value,
  the target, the duration, and the animations its completion callback starts.
\<close>

datatype AnimatedValue = presentFadeAnim | presentLeftValue

datatype Animation = Timing AnimatedValue real real "Animation list"

text \<open>
  The component's state: the \<open>targetDate\<close> state variable, the width of the layout kept
  in the \<open>leftValue\<close> ref (absent until a layout was reported), and the animations
  started so far.
\<close>

record CalendarState =
  targetDate :: Dayjs
  leftValue :: "real option"
  started :: "Animation list"


section \<open>Horizontal navigation\<close>

definition movePrevBody :: "CalendarContainerProps \<Rightarrow> CalendarState \<Rightarrow> CalendarState" where
  "movePrevBody P S =
     (let width = (case leftValue S of None \<Rightarrow> 0 | Some w \<Rightarrow> w) in
      S\<lparr>started := started S @
        [Timing presentLeftValue width (fadeInDuration P) [],
         Timing presentFadeAnim 0 (fadeInDuration P)
           [Timing presentLeftValue 0 0.01
             [Timing presentLeftValue (-1 * width) 0.01
               [Timing presentLeftValue 0 (fadeInDuration P) [],
                Timing presentFadeAnim 1 (fadeInDuration P) []]]]]\<rparr>)"

definition moveNextBody :: "CalendarContainerProps \<Rightarrow> CalendarState \<Rightarrow> CalendarState" where
  "moveNextBody P S =
     (let width = (case leftValue S of None \<Rightarrow> 0 | Some w \<Rightarrow> w) in
      S\<lparr>started := started S @
        [Timing presentLeftValue (-1 * width) (fadeInDuration P) [],
         Timing presentFadeAnim 0 (fadeInDuration P)
           [Timing presentLeftValue 0 0.01
             [Timing presentLeftValue width 0.01
               [Timing presentLeftValue 0 (fadeInDuration P) [],
                Timing presentFadeAnim 1 (fadeInDuration P) []]]]]\<rparr>)"

definition onSwipeHorizontalCallback ::
  "utils \<Rightarrow> Theme \<Rightarrow> CalendarContainerProps \<Rightarrow> HorizontalDirection \<Rightarrow> CalendarState \<Rightarrow> CalendarState" where
  "onSwipeHorizontalCallback U T P direction S =
     (if \<not> swipeEnabled P then S
      else if (direction = LEFT \<and> \<not> isRTL T) \<or> (direction = RIGHT \<and> isRTL T)
      then S\<lparr>targetDate := add_days (targetDate S) (modeToNum U (mode P) (targetDate S))\<rparr>
      else S\<lparr>targetDate := add_days (targetDate S) (modeToNum U (mode P) (targetDate S) * -1)\<rparr>)"

definition onSwipeHorizontal ::
  "utils \<Rightarrow> Theme \<Rightarrow> CalendarContainerProps \<Rightarrow> HorizontalDirection \<Rightarrow> CalendarState \<Rightarrow> CalendarState" where
  "onSwipeHorizontal U T P direction S =
     (if animatePan P then
        (if (direction = LEFT \<and> \<not> isRTL T) \<or> (direction = RIGHT \<and> isRTL T)
         then onSwipeHorizontalCallback U T P direction (moveNextBody P S)
         else onSwipeHorizontalCallback U T P direction (movePrevBody P S))
      else onSwipeHorizontalCallback U T P direction S)"

definition onPanLeft ::
  "utils \<Rightarrow> Theme \<Rightarrow> CalendarContainerProps \<Rightarrow> HorizontalDirection \<Rightarrow> CalendarState \<Rightarrow> CalendarState" where
  "onPanLeft U T P direction S =
     (if animatePan P then onSwipeHorizontalCallback U T P direction (movePrevBody P S)
      else onSwipeHorizontalCallback U T P direction S)"

definition onPanRight ::
  "utils \<Rightarrow> Theme \<Rightarrow> CalendarContainerProps \<Rightarrow> HorizontalDirection \<Rightarrow> CalendarState \<Rightarrow> CalendarState" where
  "onPanRight U T P direction S =
     (if animatePan P then onSwipeHorizontalCallback U T P direction (moveNextBody P S)
      else onSwipeHorizontalCallback U T P direction S)"


section \<open>Event partition and date range\<close>

definition allDayEvents :: "utils \<Rightarrow> CalendarContainerProps \<Rightarrow> ICalendarEventBase list" where
  "allDayEvents U P = filter (\<lambda>event. isAllDayEvent U (start event) (end' event)) (events P)"

definition daytimeEvents :: "utils \<Rightarrow> CalendarContainerProps \<Rightarrow> ICalendarEventBase list" where
  "daytimeEvents U P = filter (\<lambda>event. \<not> isAllDayEvent U (start event) (end' event)) (events P)"

text \<open>The \<open>switch (mode)\<close> of \<open>dateRange\<close>; its \<open>default\<close> branch throws.\<close>

definition dateRange ::
  "utils \<Rightarrow> CalendarContainerProps \<Rightarrow> CalendarState \<Rightarrow> error + Dayjs list" where
  "dateRange U P S =
     (if mode P = ''month'' then Inr (getDatesInMonth U (targetDate S) (locale' P))
      else if mode P = ''week'' then Inr (getDatesInWeek U (targetDate S) (weekStartsOn P) (locale' P))
      else if mode P = ''3days'' then Inr (getDatesInNextThreeDays U (targetDate S) (locale' P))
      else if mode P = ''day'' then Inr (getDatesInNextOneDay U (targetDate S) (locale' P))
      else if mode P = ''custom'' then
        Inr (getDatesInNextCustomDays U (targetDate S) (weekStartsOn P) (weekEndsOn P) (locale' P))
      else Inl (UnsupportedMode (mode P)))"

text \<open>
  The body of the effect on \<open>[dateRange, onChangeDate]\<close>. \<open>dateRange[0]\<close> of an empty
  array is \<open>undefined\<close>, and
  \<open>undefined.toDate()\<close> throws a \<open>TypeError\<close>; \<open>dateRange.slice(-1)[0]\<close> is the last
  element.
\<close>

definition onChangeDate_effect :: "CalendarContainerProps \<Rightarrow> Dayjs list \<Rightarrow> error + Call list" where
  "onChangeDate_effect P dates =
     (if onChangeDate P then
        (case dates of
           [] \<Rightarrow> Inl TypeError
         | x # xs \<Rightarrow> Inr [Call_onChangeDate (toDate x) (toDate (last (x # xs)))])
      else Inr [])"

text \<open>
  React runs an effect that has a dependency list after the first render, and after a
  later render when some dependency is not the same value (\<open>Object.is\<close>) as at the
  previous render. The dependencies of this effect are \<open>[dateRange, onChangeDate]\<close>, an
  array and a function, both compared by identity: a reference number stands for the
  identity, and \<open>prev\<close> holds the dependencies of the previous render, if there was one.
\<close>

record EffectDeps =
  dateRange_ref :: nat
  onChangeDate_ref :: "nat option"

definition depsChanged :: "EffectDeps option \<Rightarrow> EffectDeps \<Rightarrow> bool" where
  "depsChanged prev cur =
     (case prev of
        None \<Rightarrow> True
      | Some p \<Rightarrow>
          dateRange_ref p \<noteq> dateRange_ref cur \<or> onChangeDate_ref p \<noteq> onChangeDate_ref cur)"

text \<open>
  One render followed by its effect phase: \<open>dateRange\<close> is computed during the render,
  and a render that throws runs no effect; otherwise the effect body runs on the computed
  range when a dependency changed.
\<close>

definition onChangeDate_useEffect ::
  "utils \<Rightarrow> CalendarContainerProps \<Rightarrow> CalendarState \<Rightarrow> EffectDeps option \<Rightarrow> EffectDeps
     \<Rightarrow> error + Call list" where
  "onChangeDate_useEffect U P S prev cur =
     (case dateRange U P S of
        Inl e \<Rightarrow> Inl e
      | Inr dates \<Rightarrow> if depsChanged prev cur then onChangeDate_effect P dates else Inr [])"

text \<open>
  The requirement on the imported range helpers that the effect rests on: each of them
  returns at least one date.
\<close>

definition ranges_nonempty :: "utils \<Rightarrow> bool" where
  "ranges_nonempty U =
     (\<forall>dj l ws we.
        getDatesInMonth U dj l \<noteq> []
        \<and> getDatesInWeek U dj ws l \<noteq> []
        \<and> getDatesInNextThreeDays U dj l \<noteq> []
        \<and> getDatesInNextOneDay U dj l \<noteq> []
        \<and> getDatesInNextCustomDays U dj ws we l \<noteq> [])"


section \<open>What the container renders\<close>

record CalendarHeaderProps =
  h_dateRange :: "Dayjs list"
  h_allDayEvents :: "ICalendarEventBase list"
  h_onPressDateHeader :: bool
  h_showAllDayEventCell :: bool

text \<open>
  The header and body elements of the returned fragment, with the props that carry
  events and dates. The month header is given no events.
\<close>

datatype HeaderElement =
  HeaderComponentForMonthView
  | HeaderComponent CalendarHeaderProps

datatype BodyElement =
  CalendarBodyForMonthView "ICalendarEventBase list" "Dayjs list"
  | CalendarBody "ICalendarEventBase list" "Dayjs list"

record Fragment =
  header :: HeaderElement
  body :: BodyElement

definition CalendarContainer ::
  "utils \<Rightarrow> CalendarContainerProps \<Rightarrow> CalendarState \<Rightarrow> error + Fragment" where
  "CalendarContainer U P S =
     (case dateRange U P S of
        Inl e \<Rightarrow> Inl e
      | Inr dates \<Rightarrow>
          if mode P = ''month'' then
            Inr \<lparr>header = HeaderComponentForMonthView,
                 body = CalendarBodyForMonthView (daytimeEvents U P @ allDayEvents U P) dates\<rparr>
          else
            Inr \<lparr>header = HeaderComponent
                   \<lparr>h_dateRange = dates,
                    h_allDayEvents = allDayEvents U P,
                    h_onPressDateHeader = onPressDateHeader P,
                    h_showAllDayEventCell = showAllDayEventCell P\<rparr>,
                 body = CalendarBody (daytimeEvents U P) dates\<rparr>)"

fun body_events :: "BodyElement \<Rightarrow> ICalendarEventBase list" where
  "body_events (CalendarBodyForMonthView es dates) = es"
| "body_events (CalendarBody es dates) = es"

fun header_allDayEvents :: "HeaderElement \<Rightarrow> ICalendarEventBase list option" where
  "header_allDayEvents HeaderComponentForMonthView = None"
| "header_allDayEvents (HeaderComponent H) = Some (h_allDayEvents H)"


section \<open>The header\<close>

text \<open>
  \<open>_onPressHeader\<close>: \<open>onPressDateHeader && onPressDateHeader(date)\<close>.
\<close>

definition onPressHeader :: "CalendarHeaderProps \<Rightarrow> Date \<Rightarrow> Call list" where
  "onPressHeader H date = (if h_onPressDateHeader H then [Call_onPressDateHeader date] else [])"

text \<open>
  One \<open>TouchableOpacity\<close> per date of the range: the date, the calls its \<open>onPress\<close>
  makes, its \<open>disabled\<close> flag, and the events of its all-day cell (no cell when
  \<open>showAllDayEventCell\<close> is off; an event mapped to \<open>null\<close> is not rendered).
\<close>

record HeaderColumn =
  column_date :: Dayjs
  column_onPress :: "Call list"
  column_disabled :: bool
  column_allDayCell :: "ICalendarEventBase list option"

definition CalendarHeader :: "CalendarHeaderProps \<Rightarrow> HeaderColumn list" where
  "CalendarHeader H =
     map (\<lambda>date.
        \<lparr>column_date = date,
         column_onPress = onPressHeader H (toDate date),
         column_disabled = (\<not> h_onPressDateHeader H),
         column_allDayCell =
           (if h_showAllDayEventCell H then
              Some (filter (\<lambda>event. isBetween_day_incl date (start event) (end' event))
                      (h_allDayEvents H))
            else None)\<rparr>)
       (h_dateRange H)"

text \<open>A tap on a \<open>TouchableOpacity\<close>: a disabled one does not run its \<open>onPress\<close>.\<close>

definition press :: "HeaderColumn \<Rightarrow> Call list" where
  "press col = (if column_disabled col then [] else column_onPress col)"


section \<open>Sample inputs\<close>

text \<open>
  One implementation of the imported helpers and a few inputs, to evaluate the component
  at. Ranges are runs of consecutive days from the target date; an event is all-day when
  both its ends are at midnight; the period of a mode is a fixed number of days.
\<close>

definition days_from :: "Dayjs \<Rightarrow> nat \<Rightarrow> Dayjs list" where
  "days_from dj n = map (\<lambda>i. add_days dj (int i)) [0..<n]"

definition sample_utils :: utils where
  "sample_utils =
     \<lparr>getDatesInMonth = (\<lambda>dj l. days_from dj 28),
      getDatesInWeek = (\<lambda>dj ws l. days_from dj 7),
      getDatesInNextThreeDays = (\<lambda>dj l. days_from dj 3),
      getDatesInNextOneDay = (\<lambda>dj l. days_from dj 1),
      getDatesInNextCustomDays = (\<lambda>dj ws we l. days_from dj (Suc (we - ws))),
      isAllDayEvent = (\<lambda>s e. getTime s mod msPerDay = 0 \<and> getTime e mod msPerDay = 0),
      modeToNum = (\<lambda>m dj.
        if m = ''day'' then 1
        else if m = ''3days'' then 3
        else if m = ''month'' then 28
        else 7)\<rparr>"

definition holiday :: ICalendarEventBase where
  "holiday = \<lparr>start = Date (14 * msPerDay), end' = Date (16 * msPerDay), title = ''holiday''\<rparr>"

definition meeting :: ICalendarEventBase where
  "meeting =
     \<lparr>start = Date (14 * msPerDay + 3600000), end' = Date (14 * msPerDay + 7200000),
      title = ''meeting''\<rparr>"

definition sample_props :: CalendarContainerProps where
  "sample_props =
     \<lparr>events = [holiday, meeting],
      mode = ''week'',
      locale' = ''en'',
      swipeEnabled = True,
      weekStartsOn = 0,
      weekEndsOn = 6,
      showAllDayEventCell = True,
      animatePan = False,
      fadeInDuration = 0,
      onChangeDate = True,
      onPressDateHeader = True\<rparr>"

definition sample_state :: CalendarState where
  "sample_state = \<lparr>targetDate = dayjs (Date (14 * msPerDay)), leftValue = None, started = []\<rparr>"

definition ltr :: Theme where
  "ltr = \<lparr>isRTL = False\<rparr>"

definition sample_header :: CalendarHeaderProps where
  "sample_header =
     \<lparr>h_dateRange = [dayjs (Date (15 * msPerDay)), dayjs (Date (17 * msPerDay))],
      h_allDayEvents = [holiday],
      h_onPressDateHeader = True,
      h_showAllDayEventCell = True\<rparr>"

section \<open>Facts about days\<close>

lemma le_div_iff_mult_le:
  fixes D :: int
  assumes "0 < D"
  shows "k \<le> b div D \<longleftrightarrow> k * D \<le> b"
proof
  assume "k \<le> b div D"
  then have "k * D \<le> (b div D) * D"
    using assms by (simp add: mult_right_mono)
  also have "\<dots> = b - b mod D"
    by (simp add: minus_mod_eq_div_mult)
  also have "\<dots> \<le> b"
    using assms by simp
  finally show "k * D \<le> b" .
next
  assume "k * D \<le> b"
  then have "k * D div D \<le> b div D"
    using assms by (rule zdiv_mono1)
  then show "k \<le> b div D"
    using assms by simp
qed

lemma div_le_iff_less_mult:
  fixes D :: int
  assumes "0 < D"
  shows "a div D \<le> k \<longleftrightarrow> a < (k + 1) * D"
proof -
  have "a div D \<le> k \<longleftrightarrow> \<not> (k + 1 \<le> a div D)"
    by auto
  also have "\<dots> \<longleftrightarrow> \<not> ((k + 1) * D \<le> a)"
    using le_div_iff_mult_le [OF assms] by simp
  finally show ?thesis
    by auto
qed

lemma startOfDay_eq: "startOfDay t = epochDay t * msPerDay"
  by (simp add: startOfDay_def epochDay_def minus_mod_eq_div_mult)

lemma msPerDay_pos: "0 < msPerDay"
  by (simp add: msPerDay_def)

lemma not_isBefore_day_iff:
  "\<not> isBefore_day this a \<longleftrightarrow> epochDay (getTime a) \<le> epochDay (valueOf this)"
proof -
  have "\<not> isBefore_day this a \<longleftrightarrow> getTime a < (epochDay (valueOf this) + 1) * msPerDay"
    by (auto simp: isBefore_day_def endOfDay_def startOfDay_eq algebra_simps)
  then show ?thesis
    unfolding epochDay_def [of "getTime a"] div_le_iff_less_mult [OF msPerDay_pos] .
qed

lemma not_isAfter_day_iff:
  "\<not> isAfter_day this b \<longleftrightarrow> epochDay (valueOf this) \<le> epochDay (getTime b)"
proof -
  have "\<not> isAfter_day this b \<longleftrightarrow> epochDay (valueOf this) * msPerDay \<le> getTime b"
    by (auto simp: isAfter_day_def startOfDay_eq)
  then show ?thesis
    unfolding epochDay_def [of "getTime b"] le_div_iff_mult_le [OF msPerDay_pos] .
qed

lemma isBetween_day_incl_iff:
  "isBetween_day_incl this a b \<longleftrightarrow>
     (epochDay (getTime a) \<le> epochDay (valueOf this) \<and> epochDay (valueOf this) \<le> epochDay (getTime b)) \<or>
     (epochDay (getTime b) \<le> epochDay (valueOf this) \<and> epochDay (valueOf this) \<le> epochDay (getTime a))"
  unfolding isBetween_day_incl_def not_isBefore_day_iff not_isAfter_day_iff by blast


section \<open>Navigation and the target date\<close>

lemma targetDate_movePrevBody: "targetDate (movePrevBody P S) = targetDate S"
  by (simp add: movePrevBody_def Let_def)

lemma targetDate_moveNextBody: "targetDate (moveNextBody P S) = targetDate S"
  by (simp add: moveNextBody_def Let_def)

lemma valueOf_add_days: "valueOf (add_days dj n) = valueOf dj + n * msPerDay"
  by (simp add: add_days_def valueOf_def)

lemma epochDay_shift: "epochDay (t + n * msPerDay) = epochDay t + n"
  using msPerDay_pos by (simp add: epochDay_def)

lemma epochDay_shift_back: "epochDay (t - n * msPerDay) = epochDay t - n"
  using epochDay_shift [of t "- n"] by simp

lemma epochDay_add_days: "epochDay (valueOf (add_days dj n)) = epochDay (valueOf dj) + n"
  by (simp add: valueOf_add_days epochDay_shift)

lemma add_days_eq_iff: "add_days dj m = add_days dj n \<longleftrightarrow> m = n"
  using msPerDay_pos by (simp add: add_days_def)

lemma add_days_add_days: "add_days (add_days dj m) n = add_days dj (m + n)"
  by (simp add: add_days_def valueOf_def algebra_simps)

lemma add_days_zero: "add_days dj 0 = dj"
  by (cases dj; cases "toDate dj") (simp add: add_days_def valueOf_def)

lemma targetDate_onSwipeHorizontalCallback:
  "targetDate (onSwipeHorizontalCallback U T P direction S) =
     (if \<not> swipeEnabled P then targetDate S
      else if (direction = LEFT \<and> \<not> isRTL T) \<or> (direction = RIGHT \<and> isRTL T)
      then add_days (targetDate S) (modeToNum U (mode P) (targetDate S))
      else add_days (targetDate S) (- modeToNum U (mode P) (targetDate S)))"
  by (simp add: onSwipeHorizontalCallback_def)

lemma targetDate_onSwipeHorizontal:
  "targetDate (onSwipeHorizontal U T P direction S) =
     targetDate (onSwipeHorizontalCallback U T P direction S)"
  by (simp add: onSwipeHorizontal_def targetDate_onSwipeHorizontalCallback
      targetDate_movePrevBody targetDate_moveNextBody)

lemma targetDate_onPanLeft:
  "targetDate (onPanLeft U T P direction S) =
     targetDate (onSwipeHorizontalCallback U T P direction S)"
  by (simp add: onPanLeft_def targetDate_onSwipeHorizontalCallback targetDate_movePrevBody)

lemma targetDate_onPanRight:
  "targetDate (onPanRight U T P direction S) =
     targetDate (onSwipeHorizontalCallback U T P direction S)"
  by (simp add: onPanRight_def targetDate_onSwipeHorizontalCallback targetDate_moveNextBody)

lemmas targetDate_handlers =
  targetDate_onSwipeHorizontal targetDate_onPanLeft targetDate_onPanRight

text \<open>
  Claim C1. With \<open>swipeEnabled\<close> on, the swipe callback, the swipe handler and the two
  pan handlers set the target date to the old one shifted by \<open>modeToNum(mode, targetDate)\<close>
  days: forward for direction \<open>LEFT\<close> when not RTL or \<open>RIGHT\<close> when RTL, backward
  otherwise. The shift moves the time value by that many days and the calendar day by
  that number.
\<close>

theorem swipe_shifts_by_one_period:
  "swipeEnabled P \<Longrightarrow>
   (let n = modeToNum U (mode P) (targetDate S);
        k = (if (direction = LEFT \<and> \<not> isRTL T) \<or> (direction = RIGHT \<and> isRTL T) then n else - n)
    in targetDate (onSwipeHorizontalCallback U T P direction S) = add_days (targetDate S) k
     \<and> targetDate (onSwipeHorizontal U T P direction S) = add_days (targetDate S) k
     \<and> targetDate (onPanLeft U T P direction S) = add_days (targetDate S) k
     \<and> targetDate (onPanRight U T P direction S) = add_days (targetDate S) k
     \<and> valueOf (add_days (targetDate S) k) = valueOf (targetDate S) + k * msPerDay
     \<and> epochDay (valueOf (add_days (targetDate S) k)) = epochDay (valueOf (targetDate S)) + k)"
  unfolding Let_def targetDate_handlers
  by (simp add: targetDate_onSwipeHorizontalCallback valueOf_add_days epochDay_shift
      epochDay_shift_back)

theorem swipe_shifts_by_one_period_witness:
  "swipeEnabled sample_props \<and>
   targetDate (onSwipeHorizontalCallback sample_utils ltr sample_props LEFT sample_state)
     = add_days (targetDate sample_state) 7 \<and>
   targetDate (onPanRight sample_utils ltr sample_props RIGHT sample_state)
     = add_days (targetDate sample_state) (- 7)"
  using swipe_shifts_by_one_period [of sample_props sample_utils sample_state LEFT ltr]
    swipe_shifts_by_one_period [of sample_props sample_utils sample_state RIGHT ltr]
  by (simp add: Let_def sample_props_def sample_utils_def ltr_def)

text \<open>
  Claim C9. With \<open>swipeEnabled\<close> off, \<open>onSwipeHorizontalCallback\<close> returns the state
  as it is, and the swipe handler and both pan handlers leave the target date unchanged,
  for every direction and mode.
\<close>

theorem swipe_disabled_keeps_targetDate:
  "\<not> swipeEnabled P \<Longrightarrow>
     onSwipeHorizontalCallback U T P direction S = S
   \<and> targetDate (onSwipeHorizontal U T P direction S) = targetDate S
   \<and> targetDate (onPanLeft U T P direction S) = targetDate S
   \<and> targetDate (onPanRight U T P direction S) = targetDate S"
  unfolding targetDate_handlers
  by (simp add: onSwipeHorizontalCallback_def)

theorem swipe_disabled_keeps_targetDate_witness:
  "\<not> swipeEnabled (sample_props\<lparr>swipeEnabled := False\<rparr>) \<and>
   onSwipeHorizontalCallback sample_utils ltr (sample_props\<lparr>swipeEnabled := False\<rparr>) LEFT sample_state
     = sample_state \<and>
   targetDate (onPanLeft sample_utils ltr (sample_props\<lparr>swipeEnabled := False\<rparr>) LEFT sample_state)
     = dayjs (Date (14 * msPerDay))"
  using swipe_disabled_keeps_targetDate
    [of "sample_props\<lparr>swipeEnabled := False\<rparr>" sample_utils ltr LEFT sample_state]
  by (simp add: sample_state_def)

text \<open>
  Claim C6. For every direction, the swipe handler and the two pan handlers give the same
  target date with \<open>animatePan\<close> on (the animation is started first) as with it off.
\<close>

theorem animatePan_same_targetDate:
  "targetDate (onSwipeHorizontal U T (P\<lparr>animatePan := True\<rparr>) direction S)
     = targetDate (onSwipeHorizontal U T (P\<lparr>animatePan := False\<rparr>) direction S)
   \<and> targetDate (onPanLeft U T (P\<lparr>animatePan := True\<rparr>) direction S)
     = targetDate (onPanLeft U T (P\<lparr>animatePan := False\<rparr>) direction S)
   \<and> targetDate (onPanRight U T (P\<lparr>animatePan := True\<rparr>) direction S)
     = targetDate (onPanRight U T (P\<lparr>animatePan := False\<rparr>) direction S)"
  unfolding targetDate_handlers
  by (simp add: targetDate_onSwipeHorizontalCallback)

theorem animatePan_same_targetDate_witness:
  "targetDate (onSwipeHorizontal sample_utils ltr (sample_props\<lparr>animatePan := True\<rparr>) LEFT sample_state)
     = targetDate (onSwipeHorizontal sample_utils ltr (sample_props\<lparr>animatePan := False\<rparr>) LEFT sample_state)
   \<and> started (onSwipeHorizontal sample_utils ltr (sample_props\<lparr>animatePan := True\<rparr>) LEFT sample_state)
     \<noteq> started (onSwipeHorizontal sample_utils ltr (sample_props\<lparr>animatePan := False\<rparr>) LEFT sample_state)"
  using animatePan_same_targetDate [of sample_utils ltr sample_props LEFT sample_state]
  by (simp add: onSwipeHorizontal_def onSwipeHorizontalCallback_def moveNextBody_def
      sample_props_def sample_state_def ltr_def Let_def)

text \<open>
  Two successive steps, one forward and one backward, for any implementation of
  \<open>modeToNum\<close>: the backward step reads the period at the date the forward step reached,
  so the target date ends at the original one shifted by the difference of the two
  periods, and the two steps cancel exactly when the two periods are equal.
\<close>

lemma forward_then_backward_difference:
  assumes "swipeEnabled P"
    and "(d1 = LEFT \<and> \<not> isRTL T) \<or> (d1 = RIGHT \<and> isRTL T)"
    and "\<not> ((d2 = LEFT \<and> \<not> isRTL T) \<or> (d2 = RIGHT \<and> isRTL T))"
  shows "targetDate (onSwipeHorizontalCallback U T P d2 (onSwipeHorizontalCallback U T P d1 S))
       = add_days (targetDate S)
           (modeToNum U (mode P) (targetDate S)
            - modeToNum U (mode P) (add_days (targetDate S) (modeToNum U (mode P) (targetDate S))))"
proof -
  let ?n = "modeToNum U (mode P) (targetDate S)"
  let ?t1 = "add_days (targetDate S) ?n"
  have 1: "targetDate (onSwipeHorizontalCallback U T P d1 S) = ?t1"
    using assms(1,2) by (simp add: targetDate_onSwipeHorizontalCallback)
  have "targetDate (onSwipeHorizontalCallback U T P d2 (onSwipeHorizontalCallback U T P d1 S))
          = add_days ?t1 (- modeToNum U (mode P) ?t1)"
    using assms(1,3) 1
    by (cases d2; cases "isRTL T") (simp_all add: targetDate_onSwipeHorizontalCallback)
  then show ?thesis
    by (simp add: add_days_add_days)
qed

lemma forward_then_backward_cancel_iff:
  assumes "swipeEnabled P"
    and "(d1 = LEFT \<and> \<not> isRTL T) \<or> (d1 = RIGHT \<and> isRTL T)"
    and "\<not> ((d2 = LEFT \<and> \<not> isRTL T) \<or> (d2 = RIGHT \<and> isRTL T))"
  shows "(targetDate (onSwipeHorizontalCallback U T P d2 (onSwipeHorizontalCallback U T P d1 S))
            = targetDate S)
       = (modeToNum U (mode P) (add_days (targetDate S) (modeToNum U (mode P) (targetDate S)))
            = modeToNum U (mode P) (targetDate S))"
proof -
  have "(targetDate (onSwipeHorizontalCallback U T P d2 (onSwipeHorizontalCallback U T P d1 S))
            = targetDate S)
      = (add_days (targetDate S)
           (modeToNum U (mode P) (targetDate S)
            - modeToNum U (mode P) (add_days (targetDate S) (modeToNum U (mode P) (targetDate S))))
         = add_days (targetDate S) 0)"
    by (simp add: forward_then_backward_difference [OF assms] add_days_zero)
  then show ?thesis
    unfolding add_days_eq_iff by auto
qed


section \<open>The partition of the events, the date range and its effect\<close>

lemma isAllDayEvent_holiday: "isAllDayEvent sample_utils (start holiday) (end' holiday)"
  by (simp add: sample_utils_def holiday_def)

lemma not_isAllDayEvent_meeting: "\<not> isAllDayEvent sample_utils (start meeting) (end' meeting)"
  by (simp add: sample_utils_def meeting_def msPerDay_def)

lemma allDayEvents_sample: "allDayEvents sample_utils sample_props = [holiday]"
  using isAllDayEvent_holiday not_isAllDayEvent_meeting
  by (simp add: allDayEvents_def sample_props_def)

lemma daytimeEvents_sample: "daytimeEvents sample_utils sample_props = [meeting]"
  using isAllDayEvent_holiday not_isAllDayEvent_meeting
  by (simp add: daytimeEvents_def sample_props_def)

lemma allDayEvents_mode: "allDayEvents U (P\<lparr>mode := m\<rparr>) = allDayEvents U P"
  by (simp add: allDayEvents_def)

lemma daytimeEvents_mode: "daytimeEvents U (P\<lparr>mode := m\<rparr>) = daytimeEvents U P"
  by (simp add: daytimeEvents_def)

text \<open>
  Claim C3. The events are split into the all-day events, for which
  \<open>isAllDayEvent(start, end)\<close> holds, and the timed events, for which it does not: the
  two lists together hold the events of the input with their multiplicities, each is a
  subsequence of the input (so keeps its order), and no event is in both.
\<close>

theorem events_partition:
  "mset (allDayEvents U P) + mset (daytimeEvents U P) = mset (events P)
   \<and> subseq (allDayEvents U P) (events P)
   \<and> subseq (daytimeEvents U P) (events P)
   \<and> set (allDayEvents U P) \<inter> set (daytimeEvents U P) = {}
   \<and> set (allDayEvents U P) \<union> set (daytimeEvents U P) = set (events P)
   \<and> (\<forall>event \<in> set (allDayEvents U P). isAllDayEvent U (start event) (end' event))
   \<and> (\<forall>event \<in> set (daytimeEvents U P). \<not> isAllDayEvent U (start event) (end' event))"
proof -
  let ?p = "\<lambda>event. isAllDayEvent U (start event) (end' event)"
  have "mset (filter ?p (events P)) + mset (filter (\<lambda>event. \<not> ?p event) (events P)) = mset (events P)"
    by (induction "events P") simp_all
  then show ?thesis
    by (auto simp: allDayEvents_def daytimeEvents_def)
qed

theorem events_partition_witness:
  "allDayEvents sample_utils sample_props = [holiday]
   \<and> daytimeEvents sample_utils sample_props = [meeting]
   \<and> mset [holiday] + mset [meeting] = mset (events sample_props)
   \<and> subseq [holiday] (events sample_props)
   \<and> subseq [meeting] (events sample_props)"
  using events_partition [of sample_utils sample_props]
  by (simp add: allDayEvents_sample daytimeEvents_sample)

text \<open>
  Claim C2. \<open>dateRange\<close> returns a list of dates exactly for the modes \<open>day\<close>,
  \<open>3days\<close>, \<open>week\<close>, \<open>month\<close> and \<open>custom\<close> (the list its helper returns), and
  for every other mode it throws the unsupported-mode error.
\<close>

theorem dateRange_supported_modes:
  "((\<exists>dates. dateRange U P S = Inr dates)
      = (mode P \<in> {''day'', ''3days'', ''week'', ''month'', ''custom''}))
   \<and> ((dateRange U P S = Inl (UnsupportedMode (mode P)))
      = (mode P \<notin> {''day'', ''3days'', ''week'', ''month'', ''custom''}))
   \<and> dateRange U (P\<lparr>mode := ''day''\<rparr>) S = Inr (getDatesInNextOneDay U (targetDate S) (locale' P))
   \<and> dateRange U (P\<lparr>mode := ''3days''\<rparr>) S = Inr (getDatesInNextThreeDays U (targetDate S) (locale' P))
   \<and> dateRange U (P\<lparr>mode := ''week''\<rparr>) S
        = Inr (getDatesInWeek U (targetDate S) (weekStartsOn P) (locale' P))
   \<and> dateRange U (P\<lparr>mode := ''month''\<rparr>) S = Inr (getDatesInMonth U (targetDate S) (locale' P))
   \<and> dateRange U (P\<lparr>mode := ''custom''\<rparr>) S
        = Inr (getDatesInNextCustomDays U (targetDate S) (weekStartsOn P) (weekEndsOn P) (locale' P))"
  by (simp add: dateRange_def)

theorem dateRange_supported_modes_witness:
  "dateRange sample_utils sample_props sample_state = Inr (days_from (targetDate sample_state) 7)
   \<and> dateRange sample_utils (sample_props\<lparr>mode := ''year''\<rparr>) sample_state
       = Inl (UnsupportedMode ''year'')"
  using dateRange_supported_modes [of sample_utils sample_props sample_state]
    dateRange_supported_modes [of sample_utils "sample_props\<lparr>mode := ''year''\<rparr>" sample_state]
  by (simp add: sample_props_def sample_utils_def)

lemma days_from_nonempty: "0 < n \<Longrightarrow> days_from dj n \<noteq> []"
  by (simp add: days_from_def)

lemma days_from_3: "days_from dj 3 = [add_days dj 0, add_days dj 1, add_days dj 2]"
  by (simp add: days_from_def upt_rec)

lemma ranges_nonempty_sample: "ranges_nonempty sample_utils"
  by (simp add: ranges_nonempty_def sample_utils_def days_from_nonempty)

lemma dateRange_nonempty:
  "ranges_nonempty U \<Longrightarrow> dateRange U P S = Inr dates \<Longrightarrow> dates \<noteq> []"
  by (auto simp: ranges_nonempty_def dateRange_def split: if_splits)

lemma dateRange_supported:
  "mode P \<in> {''day'', ''3days'', ''week'', ''month'', ''custom''} \<Longrightarrow> \<exists>dates. dateRange U P S = Inr dates"
  by (auto simp: dateRange_def)

lemma dateRange_ref_changed:
  "dateRange_ref p \<noteq> dateRange_ref cur \<Longrightarrow> depsChanged (Some p) cur"
  by (simp add: depsChanged_def)

lemma onChangeDate_useEffect_unchanged:
  "dateRange U P S = Inr dates \<Longrightarrow> onChangeDate_useEffect U P S (Some cur) cur = Inr []"
  by (simp add: onChangeDate_useEffect_def depsChanged_def)

lemma onChangeDate_useEffect_no_callback:
  "dateRange U P S = Inr dates \<Longrightarrow> \<not> onChangeDate P \<Longrightarrow>
     onChangeDate_useEffect U P S prev cur = Inr []"
  by (simp add: onChangeDate_useEffect_def onChangeDate_effect_def)

text \<open>
  Claim C10. When an \<open>onChangeDate\<close> callback is given, after the first render and after
  every render in which \<open>dateRange\<close> is a new array, the effect calls the callback once,
  with the first and the last date of the computed range as \<open>Date\<close> values, provided the
  computed range is not empty; on an empty computed range it throws instead. So the call
  requires the ranges to be non-empty: when every range helper returns at least one date,
  the call is made in each of the five supported modes.
\<close>

theorem onChangeDate_first_and_last:
  assumes "onChangeDate P"
    and "prev = None \<or> (\<exists>p. prev = Some p \<and> dateRange_ref p \<noteq> dateRange_ref cur)"
  shows "(\<forall>dates. dateRange U P S = Inr dates \<longrightarrow>
            (dates \<noteq> [] \<longrightarrow>
               onChangeDate_useEffect U P S prev cur
                 = Inr [Call_onChangeDate (toDate (hd dates)) (toDate (last dates))])
            \<and> (dates = [] \<longrightarrow> onChangeDate_useEffect U P S prev cur = Inl TypeError))
       \<and> (ranges_nonempty U \<and> mode P \<in> {''day'', ''3days'', ''week'', ''month'', ''custom''} \<longrightarrow>
            (\<exists>dates. dateRange U P S = Inr dates \<and> dates \<noteq> []
               \<and> onChangeDate_useEffect U P S prev cur
                   = Inr [Call_onChangeDate (toDate (hd dates)) (toDate (last dates))]))"
proof -
  have changed: "depsChanged prev cur"
    using assms(2) by (auto simp: depsChanged_def)
  have run: "onChangeDate_useEffect U P S prev cur = onChangeDate_effect P dates"
    if "dateRange U P S = Inr dates" for dates
    using that changed by (simp add: onChangeDate_useEffect_def)
  have body: "onChangeDate_effect P dates
      = (if dates = [] then Inl TypeError
         else Inr [Call_onChangeDate (toDate (hd dates)) (toDate (last dates))])" for dates
    using assms(1) by (cases dates) (simp_all add: onChangeDate_effect_def)
  have first: "\<forall>dates. dateRange U P S = Inr dates \<longrightarrow>
            (dates \<noteq> [] \<longrightarrow>
               onChangeDate_useEffect U P S prev cur
                 = Inr [Call_onChangeDate (toDate (hd dates)) (toDate (last dates))])
            \<and> (dates = [] \<longrightarrow> onChangeDate_useEffect U P S prev cur = Inl TypeError)"
    by (simp add: run body)
  have second: "\<exists>dates. dateRange U P S = Inr dates \<and> dates \<noteq> []
               \<and> onChangeDate_useEffect U P S prev cur
                   = Inr [Call_onChangeDate (toDate (hd dates)) (toDate (last dates))]"
    if ne: "ranges_nonempty U"
      and m: "mode P \<in> {''day'', ''3days'', ''week'', ''month'', ''custom''}"
  proof -
    obtain dates where d: "dateRange U P S = Inr dates"
      using dateRange_supported [OF m] by blast
    have "dates \<noteq> []"
      using dateRange_nonempty [OF ne d] .
    with d first show ?thesis
      by blast
  qed
  from first second show ?thesis
    by blast
qed

theorem onChangeDate_first_and_last_witness:
  "onChangeDate (sample_props\<lparr>mode := ''3days''\<rparr>)
   \<and> ranges_nonempty sample_utils
   \<and> dateRange sample_utils (sample_props\<lparr>mode := ''3days''\<rparr>) sample_state
       = Inr (days_from (targetDate sample_state) 3)
   \<and> onChangeDate_useEffect sample_utils (sample_props\<lparr>mode := ''3days''\<rparr>) sample_state None
        \<lparr>dateRange_ref = 0, onChangeDate_ref = Some 0\<rparr>
       = Inr [Call_onChangeDate (Date (14 * msPerDay)) (Date (16 * msPerDay))]
   \<and> onChangeDate_useEffect sample_utils (sample_props\<lparr>mode := ''3days''\<rparr>) sample_state
        (Some \<lparr>dateRange_ref = 0, onChangeDate_ref = Some 0\<rparr>)
        \<lparr>dateRange_ref = 1, onChangeDate_ref = Some 0\<rparr>
       = Inr [Call_onChangeDate (Date (14 * msPerDay)) (Date (16 * msPerDay))]"
proof -
  let ?P = "sample_props\<lparr>mode := ''3days''\<rparr>"
  let ?d0 = "\<lparr>dateRange_ref = 0, onChangeDate_ref = Some 0\<rparr>"
  let ?d1 = "\<lparr>dateRange_ref = 1, onChangeDate_ref = Some 0\<rparr>"
  have cb: "onChangeDate ?P"
    by (simp add: sample_props_def)
  have d: "dateRange sample_utils ?P sample_state = Inr (days_from (targetDate sample_state) 3)"
    by (simp add: dateRange_def sample_utils_def)
  have ne: "days_from (targetDate sample_state) 3 \<noteq> []"
    by (simp add: days_from_nonempty)
  have h: "toDate (hd (days_from (targetDate sample_state) 3)) = Date (14 * msPerDay)"
    by (simp add: days_from_3 sample_state_def dayjs_def add_days_def valueOf_def)
  have l: "toDate (last (days_from (targetDate sample_state) 3)) = Date (16 * msPerDay)"
    by (simp add: days_from_3 sample_state_def dayjs_def add_days_def valueOf_def msPerDay_def)
  have c0: "None = None \<or> (\<exists>p. None = Some p \<and> dateRange_ref p \<noteq> dateRange_ref ?d0)"
    by simp
  have c1: "Some ?d0 = None \<or> (\<exists>p. Some ?d0 = Some p \<and> dateRange_ref p \<noteq> dateRange_ref ?d1)"
    by simp
  show ?thesis
    using onChangeDate_first_and_last [OF cb c0, of sample_utils sample_state]
      onChangeDate_first_and_last [OF cb c1, of sample_utils sample_state]
      cb d ne h l ranges_nonempty_sample
    by simp
qed


section \<open>The header's columns\<close>

lemma CalendarHeader_column:
  "col \<in> set (CalendarHeader H) \<Longrightarrow>
     column_onPress col = onPressHeader H (toDate (column_date col))
   \<and> column_disabled col = (\<not> h_onPressDateHeader H)
   \<and> column_allDayCell col =
        (if h_showAllDayEventCell H then
           Some (filter (\<lambda>event. isBetween_day_incl (column_date col) (start event) (end' event))
                   (h_allDayEvents H))
         else None)"
  by (auto simp: CalendarHeader_def)

lemma column_date_CalendarHeader: "map column_date (CalendarHeader H) = h_dateRange H"
  by (simp add: CalendarHeader_def comp_def)

lemma epochDay_mult: "epochDay (n * msPerDay) = n"
  using msPerDay_pos by (simp add: epochDay_def)

lemma CalendarHeader_sample:
  "CalendarHeader sample_header =
     [\<lparr>column_date = dayjs (Date (15 * msPerDay)),
       column_onPress = [Call_onPressDateHeader (Date (15 * msPerDay))],
       column_disabled = False,
       column_allDayCell = Some [holiday]\<rparr>,
      \<lparr>column_date = dayjs (Date (17 * msPerDay)),
       column_onPress = [Call_onPressDateHeader (Date (17 * msPerDay))],
       column_disabled = False,
       column_allDayCell = Some []\<rparr>]"
  by (simp add: CalendarHeader_def sample_header_def onPressHeader_def isBetween_day_incl_iff
      holiday_def dayjs_def valueOf_def epochDay_mult)

text \<open>
  Claim C7. In the header, an event of \<open>allDayEvents\<close> is shown in the all-day cell of a
  date exactly when the cell is shown (\<open>showAllDayEventCell\<close>) and the date's calendar
  day lies between the days of the event's start and end, both included. Between is read
  as \<open>isBetween\<close> reads it, for the two ends in either order; for an event that does not
  end before the day it starts on, this is: start day, then day, then end day. There is
  one column per date of the range.
\<close>

theorem allDayCell_shows_events_between:
  "col \<in> set (CalendarHeader H) \<Longrightarrow>
     ((\<exists>cell. column_allDayCell col = Some cell \<and> event \<in> set cell)
        = (h_showAllDayEventCell H \<and> event \<in> set (h_allDayEvents H)
           \<and> ((epochDay (getTime (start event)) \<le> epochDay (valueOf (column_date col))
                 \<and> epochDay (valueOf (column_date col)) \<le> epochDay (getTime (end' event)))
              \<or> (epochDay (getTime (end' event)) \<le> epochDay (valueOf (column_date col))
                 \<and> epochDay (valueOf (column_date col)) \<le> epochDay (getTime (start event))))))
   \<and> ((column_allDayCell col = None) = (\<not> h_showAllDayEventCell H))
   \<and> map column_date (CalendarHeader H) = h_dateRange H"
  by (auto simp: CalendarHeader_column column_date_CalendarHeader isBetween_day_incl_iff)

theorem allDayCell_shows_events_between_witness:
  "hd (CalendarHeader sample_header) \<in> set (CalendarHeader sample_header)
   \<and> column_allDayCell (hd (CalendarHeader sample_header)) = Some [holiday]
   \<and> h_showAllDayEventCell sample_header \<and> holiday \<in> set (h_allDayEvents sample_header)
   \<and> epochDay (getTime (start holiday)) \<le> epochDay (valueOf (column_date (hd (CalendarHeader sample_header))))
   \<and> epochDay (valueOf (column_date (hd (CalendarHeader sample_header)))) \<le> epochDay (getTime (end' holiday))"
proof -
  have m: "hd (CalendarHeader sample_header) \<in> set (CalendarHeader sample_header)"
    by (simp add: CalendarHeader_sample)
  have c: "column_allDayCell (hd (CalendarHeader sample_header)) = Some [holiday]"
    by (simp add: CalendarHeader_sample)
  have d: "epochDay (getTime (start holiday)) \<le> epochDay (valueOf (column_date (hd (CalendarHeader sample_header))))
     \<and> epochDay (valueOf (column_date (hd (CalendarHeader sample_header)))) \<le> epochDay (getTime (end' holiday))"
    by (simp add: CalendarHeader_sample holiday_def dayjs_def valueOf_def epochDay_mult)
  show ?thesis
    using allDayCell_shows_events_between [OF m, of holiday] m c d by simp
qed

text \<open>
  Claim C8. A tap on the header column of a date calls \<open>onPressDateHeader\<close> with that
  date as a \<open>Date\<close> value, and nothing else; when no \<open>onPressDateHeader\<close> is given the
  column is disabled and nothing is called.
\<close>

theorem pressing_date_header:
  "col \<in> set (CalendarHeader H) \<Longrightarrow>
     press col =
       (if h_onPressDateHeader H then [Call_onPressDateHeader (toDate (column_date col))] else [])
   \<and> column_disabled col = (\<not> h_onPressDateHeader H)"
  by (auto simp: CalendarHeader_column press_def onPressHeader_def)

theorem pressing_date_header_witness:
  "hd (CalendarHeader sample_header) \<in> set (CalendarHeader sample_header)
   \<and> press (hd (CalendarHeader sample_header)) = [Call_onPressDateHeader (Date (15 * msPerDay))]
   \<and> \<not> column_disabled (hd (CalendarHeader sample_header))"
proof -
  have m: "hd (CalendarHeader sample_header) \<in> set (CalendarHeader sample_header)"
    by (simp add: CalendarHeader_sample)
  have p: "h_onPressDateHeader sample_header"
    by (simp add: sample_header_def)
  show ?thesis
    using pressing_date_header [OF m] m p
    by (simp add: CalendarHeader_sample dayjs_def)
qed


section \<open>The events given to the header and to the body\<close>

text \<open>
  Claim C4, amended. In every supported mode other than \<open>month\<close> the body is given
  exactly the timed events, none of them all-day, and the header exactly the all-day
  events. The header, as \<open>CalendarHeader\<close> renders it, has one column per date of the
  range; a column has an all-day cell only when \<open>showAllDayEventCell\<close> is on, and an
  event is shown in the cell of a date exactly when the cell is there, the event is an
  all-day event and the date's day lies between the days of the event's start and end,
  both included, in either order. In \<open>month\<close> mode the body is given the timed events
  followed by the all-day events, and the month header is given no events.
\<close>

theorem events_given_to_body_and_header:
  "CalendarContainer U P S = Inr F \<Longrightarrow>
     (mode P \<noteq> ''month'' \<longrightarrow>
        (\<exists>dates H.
           dateRange U P S = Inr dates
           \<and> body F = CalendarBody (daytimeEvents U P) dates
           \<and> body_events (body F) = daytimeEvents U P
           \<and> (\<forall>event \<in> set (body_events (body F)). \<not> isAllDayEvent U (start event) (end' event))
           \<and> header F = HeaderComponent H
           \<and> header_allDayEvents (header F) = Some (allDayEvents U P)
           \<and> map column_date (CalendarHeader H) = dates
           \<and> (\<forall>col \<in> set (CalendarHeader H).
                ((column_allDayCell col = None) = (\<not> showAllDayEventCell P))
                \<and> (\<forall>event.
                     (\<exists>cell. column_allDayCell col = Some cell \<and> event \<in> set cell)
                     = (showAllDayEventCell P \<and> event \<in> set (allDayEvents U P)
                        \<and> ((epochDay (getTime (start event)) \<le> epochDay (valueOf (column_date col))
                              \<and> epochDay (valueOf (column_date col)) \<le> epochDay (getTime (end' event)))
                           \<or> (epochDay (getTime (end' event)) \<le> epochDay (valueOf (column_date col))
                              \<and> epochDay (valueOf (column_date col))
                                  \<le> epochDay (getTime (start event)))))))))
   \<and> (mode P = ''month'' \<longrightarrow>
        (\<exists>dates.
           dateRange U P S = Inr dates
           \<and> body F = CalendarBodyForMonthView (daytimeEvents U P @ allDayEvents U P) dates
           \<and> body_events (body F) = daytimeEvents U P @ allDayEvents U P
           \<and> header F = HeaderComponentForMonthView
           \<and> header_allDayEvents (header F) = None))"
proof -
  assume r: "CalendarContainer U P S = Inr F"
  then obtain dates where d: "dateRange U P S = Inr dates"
    by (auto simp: CalendarContainer_def split: sum.splits)
  let ?H = "\<lparr>h_dateRange = dates, h_allDayEvents = allDayEvents U P,
             h_onPressDateHeader = onPressDateHeader P,
             h_showAllDayEventCell = showAllDayEventCell P\<rparr>"
  have month: "body F = CalendarBodyForMonthView (daytimeEvents U P @ allDayEvents U P) dates
      \<and> header F = HeaderComponentForMonthView" if "mode P = ''month''"
    using r d that by (auto simp: CalendarContainer_def)
  have other: "body F = CalendarBody (daytimeEvents U P) dates \<and> header F = HeaderComponent ?H"
    if "mode P \<noteq> ''month''"
    using r d that by (auto simp: CalendarContainer_def)
  have timed: "\<forall>event \<in> set (daytimeEvents U P). \<not> isAllDayEvent U (start event) (end' event)"
    by (simp add: daytimeEvents_def)
  have columns: "map column_date (CalendarHeader ?H) = dates"
    by (simp add: column_date_CalendarHeader)
  have cells: "\<forall>col \<in> set (CalendarHeader ?H).
      ((column_allDayCell col = None) = (\<not> showAllDayEventCell P))
      \<and> (\<forall>event.
           (\<exists>cell. column_allDayCell col = Some cell \<and> event \<in> set cell)
           = (showAllDayEventCell P \<and> event \<in> set (allDayEvents U P)
              \<and> ((epochDay (getTime (start event)) \<le> epochDay (valueOf (column_date col))
                    \<and> epochDay (valueOf (column_date col)) \<le> epochDay (getTime (end' event)))
                 \<or> (epochDay (getTime (end' event)) \<le> epochDay (valueOf (column_date col))
                    \<and> epochDay (valueOf (column_date col)) \<le> epochDay (getTime (start event))))))"
    by (auto simp: CalendarHeader_column isBetween_day_incl_iff)
  show ?thesis
  proof (cases "mode P = ''month''")
    case True
    with month d show ?thesis
      by auto
  next
    case False
    have "dateRange U P S = Inr dates
           \<and> body F = CalendarBody (daytimeEvents U P) dates
           \<and> body_events (body F) = daytimeEvents U P
           \<and> (\<forall>event \<in> set (body_events (body F)). \<not> isAllDayEvent U (start event) (end' event))
           \<and> header F = HeaderComponent ?H
           \<and> header_allDayEvents (header F) = Some (allDayEvents U P)
           \<and> map column_date (CalendarHeader ?H) = dates"
      using other [OF False] d timed columns by simp
    with cells False show ?thesis
      by blast
  qed
qed

lemma valueOf_Dayjs: "valueOf (Dayjs date l) = getTime date"
  by (simp add: valueOf_def)

lemma CalendarHeader_threeDays_sample:
  "map column_allDayCell
     (CalendarHeader
        \<lparr>h_dateRange = days_from (targetDate sample_state) 3,
         h_allDayEvents = [holiday],
         h_onPressDateHeader = True,
         h_showAllDayEventCell = True\<rparr>)
   = [Some [holiday], Some [holiday], Some [holiday]]"
  by (simp add: CalendarHeader_def days_from_3 isBetween_day_incl_iff holiday_def sample_state_def
      dayjs_def epochDay_add_days valueOf_Dayjs epochDay_mult)

theorem events_given_to_body_and_header_witness:
  "CalendarContainer sample_utils (sample_props\<lparr>mode := ''3days''\<rparr>) sample_state
     = Inr \<lparr>header = HeaderComponent
              \<lparr>h_dateRange = days_from (targetDate sample_state) 3,
               h_allDayEvents = [holiday],
               h_onPressDateHeader = True,
               h_showAllDayEventCell = True\<rparr>,
            body = CalendarBody [meeting] (days_from (targetDate sample_state) 3)\<rparr>
   \<and> mode (sample_props\<lparr>mode := ''3days''\<rparr>) \<noteq> ''month''
   \<and> daytimeEvents sample_utils (sample_props\<lparr>mode := ''3days''\<rparr>) = [meeting]
   \<and> allDayEvents sample_utils (sample_props\<lparr>mode := ''3days''\<rparr>) = [holiday]
   \<and> map column_allDayCell
        (CalendarHeader
           \<lparr>h_dateRange = days_from (targetDate sample_state) 3,
            h_allDayEvents = [holiday],
            h_onPressDateHeader = True,
            h_showAllDayEventCell = True\<rparr>)
       = [Some [holiday], Some [holiday], Some [holiday]]"
proof -
  let ?P = "sample_props\<lparr>mode := ''3days''\<rparr>"
  have r: "CalendarContainer sample_utils ?P sample_state
     = Inr \<lparr>header = HeaderComponent
              \<lparr>h_dateRange = days_from (targetDate sample_state) 3,
               h_allDayEvents = [holiday],
               h_onPressDateHeader = True,
               h_showAllDayEventCell = True\<rparr>,
            body = CalendarBody [meeting] (days_from (targetDate sample_state) 3)\<rparr>"
    by (simp add: CalendarContainer_def dateRange_def allDayEvents_mode daytimeEvents_mode
        allDayEvents_sample daytimeEvents_sample)
      (simp add: sample_props_def sample_utils_def)
  have m: "mode ?P \<noteq> ''month''"
    by simp
  show ?thesis
    using events_given_to_body_and_header [OF r] r m CalendarHeader_threeDays_sample
    by (simp add: allDayEvents_mode daytimeEvents_mode allDayEvents_sample daytimeEvents_sample)
qed

text \<open>
  As stated for every mode the claim fails: in \<open>month\<close> mode the body is given the
  all-day event \<open>holiday\<close> next to the timed event, and the header is given none.
\<close>

theorem month_body_gets_allDayEvents_counterexample:
  "CalendarContainer sample_utils (sample_props\<lparr>mode := ''month''\<rparr>) sample_state
     = Inr \<lparr>header = HeaderComponentForMonthView,
            body = CalendarBodyForMonthView [meeting, holiday] (days_from (targetDate sample_state) 28)\<rparr>
   \<and> isAllDayEvent sample_utils (start holiday) (end' holiday)"
  using isAllDayEvent_holiday
  by (simp add: CalendarContainer_def dateRange_def allDayEvents_mode daytimeEvents_mode
      allDayEvents_sample daytimeEvents_sample)
    (simp add: sample_utils_def)

end
